theory Spec2Isabelle
  imports Complex_Main
begin

section \<open>JavaScript values\<close>

text \<open>
  \<^verbatim>\<open>isEvmTransactionOptions(obj: any)\<close> receives any JavaScript value, so the value
  universe of the language is modelled as far as the function can observe it: the
  \<^verbatim>\<open>typeof\<close> tag of a value and the properties read from it.

  A number is an IEEE double; the code below only ever asks for its \<^verbatim>\<open>typeof\<close>, never
  for its magnitude, so the finite doubles are embedded in the rationals.
\<close>

datatype jsnumber = Finite rat | NaN | PosInfinity | NegInfinity

text \<open>
  Objects, arrays and functions carry their named properties as an association list
  (own properties shadowing in list order); an array carries its elements besides.
\<close>

datatype jsval =
    JUndefined
  | JNull
  | JBoolean bool
  | JNumber jsnumber
  | JBigInt int
  | JString string
  | JSymbol string
  | JFunction "(string \<times> jsval) list"
  | JObject "(string \<times> jsval) list"
  | JArray "jsval list" "(string \<times> jsval) list"

datatype js_error = TypeError

text \<open>The \<^verbatim>\<open>typeof\<close> operator; \<^verbatim>\<open>typeof null\<close> and \<^verbatim>\<open>typeof []\<close> are \<^verbatim>\<open>"object"\<close>.\<close>

fun typeof :: "jsval \<Rightarrow> string" where
  "typeof JUndefined = ''undefined''"
| "typeof JNull = ''object''"
| "typeof (JBoolean b) = ''boolean''"
| "typeof (JNumber n) = ''number''"
| "typeof (JBigInt i) = ''bigint''"
| "typeof (JString s) = ''string''"
| "typeof (JSymbol s) = ''symbol''"
| "typeof (JFunction ps) = ''function''"
| "typeof (JObject ps) = ''object''"
| "typeof (JArray xs ps) = ''object''"

text \<open>
  The property read \<^verbatim>\<open>v.k\<close>, for a name \<open>k\<close> that no built-in prototype defines and
  that is not an array index (each of the sixteen names read by
  \<^verbatim>\<open>isEvmTransactionOptions\<close> is such a name). Reading a property of \<^verbatim>\<open>null\<close> or
  \<^verbatim>\<open>undefined\<close> throws a TypeError; a primitive is boxed and has no such property; an
  object, array or function yields its property, or \<^verbatim>\<open>undefined\<close> when it has none.
  Properties are plain data properties: accessors and proxies are outside the model.
\<close>

definition own_or_undefined :: "(string \<times> jsval) list \<Rightarrow> string \<Rightarrow> jsval" where
  "own_or_undefined ps k = (case map_of ps k of None \<Rightarrow> JUndefined | Some v \<Rightarrow> v)"

fun get_prop :: "jsval \<Rightarrow> string \<Rightarrow> js_error + jsval" where
  "get_prop JUndefined k = Inl TypeError"
| "get_prop JNull k = Inl TypeError"
| "get_prop (JBoolean b) k = Inr JUndefined"
| "get_prop (JNumber n) k = Inr JUndefined"
| "get_prop (JBigInt i) k = Inr JUndefined"
| "get_prop (JString s) k = Inr JUndefined"
| "get_prop (JSymbol s) k = Inr JUndefined"
| "get_prop (JFunction ps) k = Inr (own_or_undefined ps k)"
| "get_prop (JObject ps) k = Inr (own_or_undefined ps k)"
| "get_prop (JArray xs ps) k = Inr (own_or_undefined ps k)"


section \<open>Transaction options\<close>

text \<open>
  \<^verbatim>\<open>interface EvmTransactionOptions\<close>: sixteen fields, every one optional. The field
  \<^verbatim>\<open>value\<close> is \<^verbatim>\<open>number | bigint | string\<close>. Field names that are keywords here
  carry the suffix \<open>_field\<close>.
\<close>

datatype value_field_type = ValueNumber jsnumber | ValueBigint int | ValueString string

record EvmTransactionOptions =
  from_field :: "string option"
  to_field :: "string option"
  value_field :: "value_field_type option"
  gas :: "jsnumber option"
  maxFeePerGas :: "jsnumber option"
  maxPriorityFeePerGas :: "jsnumber option"
  gasPrice :: "jsnumber option"
  gasLimit :: "jsnumber option"
  nonce :: "jsnumber option"
  data_field :: "string option"
  type_field :: "jsnumber option"
  input_field :: "string option"
  chainId :: "jsnumber option"
  networkId :: "jsnumber option"
  confirmations :: "jsnumber option"
  privateKey :: "string option"

text \<open>The value with no field set, \<^verbatim>\<open>{}\<close> at the type \<^verbatim>\<open>EvmTransactionOptions\<close>.\<close>

definition no_options :: EvmTransactionOptions where
  "no_options =
     \<lparr>from_field = None, to_field = None, value_field = None, gas = None,
      maxFeePerGas = None, maxPriorityFeePerGas = None, gasPrice = None, gasLimit = None,
      nonce = None, data_field = None, type_field = None, input_field = None,
      chainId = None, networkId = None, confirmations = None, privateKey = None\<rparr>"

text \<open>
  \<^verbatim>\<open>export const defaultTransactionOptions: EvmTransactionOptions = { confirmations: 0 }\<close>
\<close>

definition defaultTransactionOptions :: EvmTransactionOptions where
  "defaultTransactionOptions = no_options\<lparr>confirmations := Some (Finite 0)\<rparr>"

text \<open>
  The run-time object of a typed options value: one own property per field that is set,
  in the order of the interface.
\<close>

fun value_to_js :: "value_field_type \<Rightarrow> jsval" where
  "value_to_js (ValueNumber n) = JNumber n"
| "value_to_js (ValueBigint i) = JBigInt i"
| "value_to_js (ValueString s) = JString s"

fun property :: "string \<Rightarrow> ('a \<Rightarrow> jsval) \<Rightarrow> 'a option \<Rightarrow> (string \<times> jsval) list" where
  "property k to_js None = []"
| "property k to_js (Some x) = [(k, to_js x)]"

definition options_properties :: "EvmTransactionOptions \<Rightarrow> (string \<times> jsval) list" where
  "options_properties r =
     property ''from'' JString (from_field r) @
     property ''to'' JString (to_field r) @
     property ''value'' value_to_js (value_field r) @
     property ''gas'' JNumber (gas r) @
     property ''maxFeePerGas'' JNumber (maxFeePerGas r) @
     property ''maxPriorityFeePerGas'' JNumber (maxPriorityFeePerGas r) @
     property ''gasPrice'' JNumber (gasPrice r) @
     property ''gasLimit'' JNumber (gasLimit r) @
     property ''nonce'' JNumber (nonce r) @
     property ''data'' JString (data_field r) @
     property ''type'' JNumber (type_field r) @
     property ''input'' JString (input_field r) @
     property ''chainId'' JNumber (chainId r) @
     property ''networkId'' JNumber (networkId r) @
     property ''confirmations'' JNumber (confirmations r) @
     property ''privateKey'' JString (privateKey r)"

definition options_object :: "EvmTransactionOptions \<Rightarrow> jsval" where
  "options_object r = JObject (options_properties r)"

subsection \<open>The type guard\<close>

text \<open>
  One conjunct of the guard,
  \<^verbatim>\<open>(typeof obj.k === "undefined" || typeof obj.k === t1 || ...)\<close>.
  The read of \<^verbatim>\<open>obj.k\<close> comes first and may throw.
\<close>

definition field_check :: "jsval \<Rightarrow> string \<Rightarrow> string list \<Rightarrow> js_error + bool" where
  "field_check obj k tys =
     (case get_prop obj k of
        Inl e \<Rightarrow> Inl e
      | Inr v \<Rightarrow> Inr (typeof v = ''undefined'' \<or> typeof v \<in> set tys))"

text \<open>
  The conjuncts in source order: the property read and the \<^verbatim>\<open>typeof\<close> results it
  accepts besides \<^verbatim>\<open>"undefined"\<close>.
\<close>

definition field_rules :: "(string \<times> string list) list" where
  "field_rules =
     [(''from'', [''string'']),
      (''to'', [''string'']),
      (''value'', [''number'', ''string'', ''bigint'']),
      (''gas'', [''number'']),
      (''maxFeePerGas'', [''number'']),
      (''maxPriorityFeePerGas'', [''number'']),
      (''gasPrice'', [''number'']),
      (''gasLimit'', [''number'']),
      (''nonce'', [''number'']),
      (''data'', [''string'']),
      (''type'', [''number'']),
      (''input'', [''string'']),
      (''chainId'', [''number'']),
      (''networkId'', [''number'']),
      (''confirmations'', [''number'']),
      (''privateKey'', [''string''])]"

text \<open>
  The chain of \<^verbatim>\<open>&&\<close>: evaluated left to right, stopping at the first conjunct that
  is false (the later reads do not happen) or that throws.
\<close>

fun all_checks :: "jsval \<Rightarrow> (string \<times> string list) list \<Rightarrow> js_error + bool" where
  "all_checks obj [] = Inr True"
| "all_checks obj ((k, tys) # rest) =
     (case field_check obj k tys of
        Inl e \<Rightarrow> Inl e
      | Inr False \<Rightarrow> Inr False
      | Inr True \<Rightarrow> all_checks obj rest)"

text \<open>
  \<^verbatim>\<open>export function isEvmTransactionOptions(obj: any): boolean\<close>. The result is
  \<open>Inr b\<close> when the call returns \<open>b\<close> and \<open>Inl TypeError\<close> when it throws.
\<close>

definition isEvmTransactionOptions :: "jsval \<Rightarrow> js_error + bool" where
  "isEvmTransactionOptions obj =
     (if typeof obj = ''object'' then all_checks obj field_rules else Inr False)"


text \<open>
  The field types the interface declares, as the \<^verbatim>\<open>typeof\<close> results of their values, in
  the order of \<^verbatim>\<open>interface EvmTransactionOptions\<close> (\<^verbatim>\<open>value?: number | bigint | string\<close>).
\<close>

definition interface_fields :: "(string \<times> string list) list" where
  "interface_fields =
     [(''from'', [''string'']),
      (''to'', [''string'']),
      (''value'', [''number'', ''bigint'', ''string'']),
      (''gas'', [''number'']),
      (''maxFeePerGas'', [''number'']),
      (''maxPriorityFeePerGas'', [''number'']),
      (''gasPrice'', [''number'']),
      (''gasLimit'', [''number'']),
      (''nonce'', [''number'']),
      (''data'', [''string'']),
      (''type'', [''number'']),
      (''input'', [''string'']),
      (''chainId'', [''number'']),
      (''networkId'', [''number'']),
      (''confirmations'', [''number'']),
      (''privateKey'', [''string''])]"

text \<open>
  A value conforms to a field declaration when the field can be read and is absent
  (reads as \<^verbatim>\<open>undefined\<close>) or has one of the declared types. No field of \<^verbatim>\<open>null\<close> can be
  read, so \<^verbatim>\<open>null\<close> conforms to no declaration.
\<close>

fun conforms :: "jsval \<Rightarrow> string \<times> string list \<Rightarrow> bool" where
  "conforms v (k, tys) =
     (case get_prop v k of
        Inl e \<Rightarrow> False
      | Inr x \<Rightarrow> typeof x = ''undefined'' \<or> typeof x \<in> set tys)"


section \<open>The capability interface\<close>

text \<open>\<^verbatim>\<open>export enum EvmType { Web3, Ethers }\<close>\<close>

datatype EvmType = Web3 | Ethers

text \<open>
  \<^verbatim>\<open>interface IEVM\<close> has no bodies: what it fixes for every backend is the signature of
  each operation. The return types are modelled as syntax. \<open>TNamed\<close> is a class,
  interface or enum known by its name only (the types of \<^verbatim>\<open>web3\<close> and \<^verbatim>\<open>ethers\<close>, and
  \<^verbatim>\<open>EvmInput\<close>, \<^verbatim>\<open>EvmType\<close>); \<open>TResult\<close> is \<^verbatim>\<open>Result<T>\<close> of \<^verbatim>\<open>@unipackage/utils\<close>.
\<close>

datatype ts_type =
    TString
  | TBigint
  | TNull
  | TUndefined
  | TAny
  | TNamed string
  | TArray ts_type
  | TUnion "ts_type list"
  | TResult ts_type
  | TPromise ts_type

text \<open>\<^verbatim>\<open>export interface EvmOutput<T> extends Result<T> {}\<close>: no member is added.\<close>

definition EvmOutput :: "ts_type \<Rightarrow> ts_type" where
  "EvmOutput t = TResult t"

text \<open>The sixteen operations of \<^verbatim>\<open>IEVM\<close>, in source order.\<close>

datatype IEVM_operation =
    IEVM_call
  | IEVM_decodeTxInputToEvmInput
  | IEVM_encodeEvmInputToTxinput
  | IEVM_encodeFunctionSignatureByAbi
  | IEVM_encodeFunctionSignatureByFuntionName
  | IEVM_generateWei
  | IEVM_getContract
  | IEVM_getContractAddress
  | IEVM_getContractABI
  | IEVM_getEvmType
  | IEVM_getProviderUrl
  | IEVM_getEtherProvider
  | IEVM_getWeb3
  | IEVM_send
  | IEVM_sendSigned
  | IEVM_sign

text \<open>The declared return type of each operation.\<close>

fun IEVM_returns :: "IEVM_operation \<Rightarrow> ts_type" where
  "IEVM_returns IEVM_call = TPromise (EvmOutput TAny)"
| "IEVM_returns IEVM_decodeTxInputToEvmInput = EvmOutput (TNamed ''EvmInput'')"
| "IEVM_returns IEVM_encodeEvmInputToTxinput = EvmOutput TString"
| "IEVM_returns IEVM_encodeFunctionSignatureByAbi = TResult TString"
| "IEVM_returns IEVM_encodeFunctionSignatureByFuntionName = EvmOutput TString"
| "IEVM_returns IEVM_generateWei = TUnion [TString, TBigint]"
| "IEVM_returns IEVM_getContract =
     TUnion [TNamed ''Contract<AbiFunctionFragment[]>'', TNamed ''EtherContract'', TNull]"
| "IEVM_returns IEVM_getContractAddress = TString"
| "IEVM_returns IEVM_getContractABI =
     TUnion [TArray (TNamed ''AbiFunctionFragment''), TArray (TNamed ''JsonFragment'')]"
| "IEVM_returns IEVM_getEvmType = TNamed ''EvmType''"
| "IEVM_returns IEVM_getProviderUrl = TUnion [TString, TUndefined]"
| "IEVM_returns IEVM_getEtherProvider = TUnion [TNamed ''ethers.AbstractProvider'', TNull]"
| "IEVM_returns IEVM_getWeb3 = TUnion [TNamed ''Web3'', TNull]"
| "IEVM_returns IEVM_send = TPromise (EvmOutput TAny)"
| "IEVM_returns IEVM_sendSigned = TPromise (EvmOutput TAny)"
| "IEVM_returns IEVM_sign =
     TPromise (EvmOutput (TUnion [TNamed ''Web3Signature'', TString]))"

text \<open>A return type has the Result shape when it is a \<^verbatim>\<open>Result\<close> or a promise of one.\<close>

fun is_Result_type :: "ts_type \<Rightarrow> bool" where
  "is_Result_type (TResult t) = True"
| "is_Result_type (TPromise (TResult t)) = True"
| "is_Result_type t = False"


section \<open>Properties of the type guard\<close>

lemma all_checks_conforms:
  "list_all (conforms v) rules \<Longrightarrow> all_checks v rules = Inr True"
proof (induction rules)
  case Nil
  show ?case by simp
next
  case (Cons rule rules)
  obtain k tys where rule: "rule = (k, tys)" by (cases rule)
  from Cons.prems rule have "field_check v k tys = Inr True"
    by (auto simp: field_check_def split: sum.splits)
  moreover from Cons have "all_checks v rules = Inr True" by simp
  ultimately show ?case by (simp add: rule)
qed

lemma get_prop_of_object:
  "v \<noteq> JNull \<Longrightarrow> v \<noteq> JUndefined \<Longrightarrow> \<exists>x. get_prop v k = Inr x"
  by (cases v) simp_all

lemma all_checks_decides:
  assumes "v \<noteq> JNull" and "v \<noteq> JUndefined"
  shows "all_checks v rules = Inr (list_all (conforms v) rules)"
proof (induction rules)
  case Nil
  show ?case by simp
next
  case (Cons rule rules)
  obtain k tys where rule: "rule = (k, tys)" by (cases rule)
  from assms obtain x where "get_prop v k = Inr x"
    using get_prop_of_object by blast
  then have "field_check v k tys = Inr (conforms v (k, tys))"
    by (simp add: field_check_def)
  with Cons.IH show ?case
    by (cases "conforms v (k, tys)") (simp_all add: rule)
qed

text \<open>The guard lists the types of \<^verbatim>\<open>value\<close> in another order than the interface.\<close>

lemma conforms_value_order:
  "conforms v (''value'', [''number'', ''string'', ''bigint'']) =
   conforms v (''value'', [''number'', ''bigint'', ''string''])"
  by (cases "get_prop v ''value''") (simp_all add: disj_left_commute disj_commute)

lemma field_rules_interface:
  "list_all (conforms v) field_rules = list_all (conforms v) interface_fields"
  unfolding interface_fields_def field_rules_def list.pred_inject conforms_value_order ..

lemma conforming_accepted:
  assumes obj: "typeof v = ''object''"
    and fields: "list_all (conforms v) interface_fields"
  shows "isEvmTransactionOptions v = Inr True"
proof -
  from fields have "list_all (conforms v) field_rules"
    by (simp only: field_rules_interface)
  then have "all_checks v field_rules = Inr True"
    by (rule all_checks_conforms)
  with obj show ?thesis by (simp add: isEvmTransactionOptions_def)
qed

lemma absent_conforms: "map_of ps k = None \<Longrightarrow> conforms (JArray xs ps) (k, tys)"
  by (simp add: own_or_undefined_def)

lemma array_conforms:
  "list_all (\<lambda>k. map_of ps k = None) (map fst rules) \<Longrightarrow>
   list_all (conforms (JArray xs ps)) rules"
proof (induction rules)
  case Nil
  show ?case by simp
next
  case (Cons rule rules)
  obtain k tys where rule: "rule = (k, tys)" by (cases rule)
  with Cons.prems have "conforms (JArray xs ps) rule"
    using absent_conforms by simp
  with Cons show ?case by simp
qed

subsection \<open>Typed option values\<close>

lemma map_of_property:
  "map_of (property k f x @ rest) k' =
     (if k' = k then (case x of None \<Rightarrow> map_of rest k' | Some y \<Rightarrow> Some (f y))
      else map_of rest k')"
  by (cases x) auto

lemma map_of_property_last:
  "map_of (property k f x) k' = (if k' = k then map_option f x else None)"
  by (cases x) auto

lemma typeof_value_to_js:
  "typeof (value_to_js x) =
     (case x of ValueNumber n \<Rightarrow> ''number'' | ValueBigint i \<Rightarrow> ''bigint''
      | ValueString s \<Rightarrow> ''string'')"
  by (cases x) simp_all

lemma options_object_conforms:
  "list_all (conforms (options_object r)) interface_fields"
  unfolding interface_fields_def list.pred_inject options_object_def
    options_properties_def
  apply (intro conjI TrueI)
  by (simp_all add: own_or_undefined_def map_of_property map_of_property_last
      typeof_value_to_js del: map_of_append
      split: option.split value_field_type.split)

subsection \<open>The claims about the guard and the default options\<close>

text \<open>
  Claim C2 as stated fails: the object \<^verbatim>\<open>{maxFeePerGas: 2, gasPrice: 1}\<close> sets the legacy
  price and an EIP-1559 fee together, and the guard returns \<^verbatim>\<open>true\<close> for it.
\<close>

theorem fee_conflict_not_rejected:
  "isEvmTransactionOptions
     (JObject [(''maxFeePerGas'', JNumber (Finite 2)), (''gasPrice'', JNumber (Finite 1))])
   = Inr True"
  by (simp add: isEvmTransactionOptions_def field_rules_def field_check_def
      own_or_undefined_def)

text \<open>
  Claim C2, amended: \<^verbatim>\<open>isEvmTransactionOptions\<close> has no check across fields. For every
  \<^verbatim>\<open>EvmTransactionOptions\<close> value in which \<^verbatim>\<open>gasPrice\<close> and an EIP-1559 fee field
  (\<^verbatim>\<open>maxFeePerGas\<close> or \<^verbatim>\<open>maxPriorityFeePerGas\<close>) are both set, it returns \<^verbatim>\<open>true\<close>.
\<close>

theorem isEvmTransactionOptions_accepts_fee_conflict:
  "gasPrice r \<noteq> None \<and> (maxFeePerGas r \<noteq> None \<or> maxPriorityFeePerGas r \<noteq> None)
   \<Longrightarrow> isEvmTransactionOptions (options_object r) = Inr True"
  using conforming_accepted [OF _ options_object_conforms]
  by (simp add: options_object_def)

theorem isEvmTransactionOptions_accepts_fee_conflict_witness:
  "gasPrice (no_options\<lparr>gasPrice := Some (Finite 1), maxFeePerGas := Some (Finite 2)\<rparr>)
     \<noteq> None
   \<and> maxFeePerGas (no_options\<lparr>gasPrice := Some (Finite 1), maxFeePerGas := Some (Finite 2)\<rparr>)
     \<noteq> None
   \<and> isEvmTransactionOptions
        (options_object
          (no_options\<lparr>gasPrice := Some (Finite 1), maxFeePerGas := Some (Finite 2)\<rparr>))
       = Inr True"
  using isEvmTransactionOptions_accepts_fee_conflict
    [of "no_options\<lparr>gasPrice := Some (Finite 1), maxFeePerGas := Some (Finite 2)\<rparr>"]
  by simp

text \<open>
  Claim C8: \<^verbatim>\<open>typeof null\<close> is \<^verbatim>\<open>"object"\<close>, so the guard goes on to read \<^verbatim>\<open>null.from\<close>,
  and \<^verbatim>\<open>isEvmTransactionOptions(null)\<close> throws a TypeError instead of returning \<^verbatim>\<open>false\<close>.
\<close>

theorem isEvmTransactionOptions_null_throws:
  "typeof JNull = ''object'' \<and> isEvmTransactionOptions JNull = Inl TypeError"
  by (simp add: isEvmTransactionOptions_def field_rules_def field_check_def)

text \<open>
  Claim C9: the guard checks each field's type and nothing else, and requires no field.
  A value whose \<^verbatim>\<open>typeof\<close> is \<^verbatim>\<open>"object"\<close> and whose sixteen fields are each absent or
  of the declared type is accepted; for an object other than \<^verbatim>\<open>null\<close> the result is
  exactly whether its fields conform; the empty object is accepted, and so is any array
  that has none of the sixteen fields.
\<close>

theorem isEvmTransactionOptions_accepts_conforming:
  "(typeof v = ''object'' \<and> list_all (conforms v) interface_fields
      \<longrightarrow> isEvmTransactionOptions v = Inr True)
   \<and> (typeof v = ''object'' \<and> v \<noteq> JNull
      \<longrightarrow> isEvmTransactionOptions v = Inr (list_all (conforms v) interface_fields))
   \<and> isEvmTransactionOptions (JObject []) = Inr True
   \<and> (list_all (\<lambda>k. map_of ps k = None) (map fst interface_fields)
      \<longrightarrow> isEvmTransactionOptions (JArray xs ps) = Inr True)"
proof (intro conjI impI)
  assume "typeof v = ''object'' \<and> list_all (conforms v) interface_fields"
  then show "isEvmTransactionOptions v = Inr True"
    using conforming_accepted by blast
next
  assume v: "typeof v = ''object'' \<and> v \<noteq> JNull"
  then have "v \<noteq> JUndefined" by auto
  with v have "all_checks v field_rules = Inr (list_all (conforms v) field_rules)"
    using all_checks_decides by blast
  with v show "isEvmTransactionOptions v = Inr (list_all (conforms v) interface_fields)"
    by (simp add: isEvmTransactionOptions_def field_rules_interface)
next
  have "list_all (conforms (JObject [])) interface_fields"
    by (simp add: interface_fields_def own_or_undefined_def)
  then show "isEvmTransactionOptions (JObject []) = Inr True"
    using conforming_accepted by simp
next
  assume "list_all (\<lambda>k. map_of ps k = None) (map fst interface_fields)"
  then have "list_all (conforms (JArray xs ps)) interface_fields"
    by (rule array_conforms)
  then show "isEvmTransactionOptions (JArray xs ps) = Inr True"
    using conforming_accepted by simp
qed

theorem isEvmTransactionOptions_accepts_conforming_witness:
  "typeof (JObject [(''to'', JString ''0xfE63eA58''), (''gas'', JNumber (Finite 21000)),
                    (''memo'', JBoolean True)]) = ''object''
   \<and> JObject [(''to'', JString ''0xfE63eA58''), (''gas'', JNumber (Finite 21000)),
              (''memo'', JBoolean True)] \<noteq> JNull
   \<and> list_all (conforms (JObject [(''to'', JString ''0xfE63eA58''),
                    (''gas'', JNumber (Finite 21000)), (''memo'', JBoolean True)]))
         interface_fields
   \<and> isEvmTransactionOptions (JObject [(''to'', JString ''0xfE63eA58''),
         (''gas'', JNumber (Finite 21000)), (''memo'', JBoolean True)]) = Inr True
   \<and> list_all (\<lambda>k. map_of [(''index'', JNumber (Finite 0))] k = None)
         (map fst interface_fields)
   \<and> isEvmTransactionOptions
         (JArray [JString ''a'', JNull] [(''index'', JNumber (Finite 0))]) = Inr True"
  using isEvmTransactionOptions_accepts_conforming
    [of "JObject [(''to'', JString ''0xfE63eA58''), (''gas'', JNumber (Finite 21000)),
                  (''memo'', JBoolean True)]"
        "[(''index'', JNumber (Finite 0))]" "[JString ''a'', JNull]"]
  by (simp add: interface_fields_def own_or_undefined_def)

text \<open>
  Claim C10: \<^verbatim>\<open>defaultTransactionOptions\<close> is exactly \<^verbatim>\<open>{confirmations: 0}\<close>:
  \<^verbatim>\<open>confirmations\<close> is 0 and every other field is absent, so its object has the one
  property.
\<close>

theorem defaultTransactionOptions_only_confirmations:
  "defaultTransactionOptions =
     \<lparr>from_field = None, to_field = None, value_field = None, gas = None,
      maxFeePerGas = None, maxPriorityFeePerGas = None, gasPrice = None, gasLimit = None,
      nonce = None, data_field = None, type_field = None, input_field = None,
      chainId = None, networkId = None, confirmations = Some (Finite 0),
      privateKey = None\<rparr>
   \<and> options_object defaultTransactionOptions =
       JObject [(''confirmations'', JNumber (Finite 0))]"
  by (simp add: defaultTransactionOptions_def no_options_def options_object_def
      options_properties_def)


section \<open>Properties of the interface\<close>

text \<open>
  Claim C1 as stated fails: \<^verbatim>\<open>generateWei\<close> is declared to return \<^verbatim>\<open>string | bigint\<close>,
  which is neither a \<^verbatim>\<open>Result\<close> nor a promise of one.
\<close>

theorem generateWei_returns_no_Result:
  "\<not> is_Result_type (IEVM_returns IEVM_generateWei)"
  by simp

text \<open>
  Claim C1, amended: the operations of the interface declared to return the Result
  shape (or a promise of it) are exactly \<^verbatim>\<open>call\<close>, \<^verbatim>\<open>send\<close>, \<^verbatim>\<open>sendSigned\<close>, \<^verbatim>\<open>sign\<close>,
  the two calldata conversions and the two selector encoders; \<^verbatim>\<open>generateWei\<close> and the
  seven accessors return bare values.
\<close>

theorem IEVM_Result_operations:
  "is_Result_type (IEVM_returns operation) \<longleftrightarrow>
   operation \<in> {IEVM_call, IEVM_send, IEVM_sendSigned, IEVM_sign,
     IEVM_decodeTxInputToEvmInput, IEVM_encodeEvmInputToTxinput,
     IEVM_encodeFunctionSignatureByAbi, IEVM_encodeFunctionSignatureByFuntionName}"
  by (cases operation) (simp_all add: EvmOutput_def)

end
